theory Spec2Isabelle
  imports Complex_Main "HOL-Library.AList"
begin

section \<open>JavaScript numbers\<close>

text \<open>
  The front end computes with JavaScript numbers.  A number is modelled as one of the
  three non-finite values or a finite value carried as an exact real: the rounding and
  the overflow of IEEE doubles are not modelled, so the model agrees with the code as
  long as every intermediate value is exactly representable (all integers of magnitude
  up to \<open>2^53\<close> are).  The two zeros are identified (\<open>Fin 0\<close>).
\<close>

datatype jsnum = NaN | NegInf | Fin real | PosInf

text \<open>\<^verbatim>\<open>Number.isFinite(x)\<close> and \<^verbatim>\<open>Number.isInteger(x)\<close>.\<close>

fun js_isFinite :: "jsnum \<Rightarrow> bool" where
  "js_isFinite (Fin _) = True"
| "js_isFinite _ = False"

fun js_isInteger :: "jsnum \<Rightarrow> bool" where
  "js_isInteger (Fin r) = (of_int \<lfloor>r\<rfloor> = r)"
| "js_isInteger _ = False"

text \<open>The comparisons \<^verbatim>\<open><\<close>, \<^verbatim>\<open><=\<close>, \<^verbatim>\<open>></\<close>, \<^verbatim>\<open>>=\<close>: false as soon as one side is NaN.\<close>

fun js_lt :: "jsnum \<Rightarrow> jsnum \<Rightarrow> bool" where
  "js_lt (Fin x) (Fin y) = (x < y)"
| "js_lt NegInf (Fin _) = True"
| "js_lt NegInf PosInf = True"
| "js_lt (Fin _) PosInf = True"
| "js_lt _ _ = False"

fun js_le :: "jsnum \<Rightarrow> jsnum \<Rightarrow> bool" where
  "js_le (Fin x) (Fin y) = (x \<le> y)"
| "js_le NaN _ = False"
| "js_le _ NaN = False"
| "js_le NegInf _ = True"
| "js_le _ PosInf = True"
| "js_le _ _ = False"

definition js_gt :: "jsnum \<Rightarrow> jsnum \<Rightarrow> bool" where
  "js_gt a b = js_lt b a"


text \<open>Strict equality \<^verbatim>\<open>===\<close> on numbers: NaN differs from itself.\<close>

fun js_eq :: "jsnum \<Rightarrow> jsnum \<Rightarrow> bool" where
  "js_eq NaN _ = False"
| "js_eq _ NaN = False"
| "js_eq a b = (a = b)"

text \<open>\<^verbatim>\<open>Math.floor(x)\<close> and the two-argument \<^verbatim>\<open>Math.max(a, b)\<close>.\<close>

fun js_floor :: "jsnum \<Rightarrow> jsnum" where
  "js_floor (Fin r) = Fin (of_int \<lfloor>r\<rfloor>)"
| "js_floor x = x"





text \<open>The sign of an infinite product or quotient; a zero counts as positive.\<close>

definition js_signed_inf :: "bool \<Rightarrow> jsnum" where
  "js_signed_inf negative = (if negative then NegInf else PosInf)"


fun js_div :: "jsnum \<Rightarrow> jsnum \<Rightarrow> jsnum" where
  "js_div (Fin x) (Fin y) =
     (if y \<noteq> 0 then Fin (x / y) else if x = 0 then NaN else js_signed_inf (x < 0))"
| "js_div NaN _ = NaN"
| "js_div _ NaN = NaN"
| "js_div (Fin _) _ = Fin 0"
| "js_div a (Fin y) = js_signed_inf ((a = NegInf) \<noteq> (y < 0))"
| "js_div _ _ = NaN"

definition js_trunc :: "real \<Rightarrow> int" where
  "js_trunc r = (if 0 \<le> r then \<lfloor>r\<rfloor> else \<lceil>r\<rceil>)"

fun js_rem :: "jsnum \<Rightarrow> jsnum \<Rightarrow> jsnum" where
  "js_rem (Fin x) (Fin y) = (if y = 0 then NaN else Fin (x - y * of_int (js_trunc (x / y))))"
| "js_rem (Fin x) PosInf = Fin x"
| "js_rem (Fin x) NegInf = Fin x"
| "js_rem _ _ = NaN"

section \<open>Strings\<close>

text \<open>
  A string is a list of 8-bit characters.  \<^verbatim>\<open>trim\<close> removes the ASCII white space
  (tab, line feed, vertical tab, form feed, carriage return, space) from both ends;
  white space outside ASCII is not modelled.
\<close>

definition is_space :: "char \<Rightarrow> bool" where
  "is_space c = (c \<in> set [CHR 0x09, CHR 0x0A, CHR 0x0B, CHR 0x0C, CHR 0x0D, CHR '' ''])"

definition trim :: "string \<Rightarrow> string" where
  "trim s = rev (dropWhile is_space (rev (dropWhile is_space s)))"

text \<open>The class \<^verbatim>\<open>\d\<close> of a regular expression: the ten ASCII digits.\<close>

definition is_digit :: "char \<Rightarrow> bool" where
  "is_digit c = (48 \<le> (of_char c :: nat) \<and> (of_char c :: nat) \<le> 57)"

definition digit_val :: "char \<Rightarrow> nat" where
  "digit_val c = of_char c - 48"

definition digits_value :: "string \<Rightarrow> nat" where
  "digits_value ds = foldl (\<lambda>a c. 10 * a + digit_val c) 0 ds"

text \<open>
  \<^verbatim>\<open>Number(s)\<close> for a string of decimal digits, such as a \<^verbatim>\<open>\d+\<close> group
  captures: the decimal value.  Any other string is given NaN here; nothing below
  converts one with this function.
\<close>

definition Number_digits :: "string \<Rightarrow> jsnum" where
  "Number_digits ds = (if ds \<noteq> [] \<and> list_all is_digit ds then Fin (of_nat (digits_value ds)) else NaN)"



section \<open>IntervalParser\<close>



section \<open>BarEstimator\<close>










section \<open>WindowCounter\<close>


section \<open>WindowRecommender\<close>



section \<open>ConfigResolver\<close>

subsection \<open>JSON values and the merge\<close>

text \<open>
  \<^verbatim>\<open>JsonValue\<close> of \<^verbatim>\<open>lib/types.ts\<close>.  An object is the list of its own
  properties with pairwise different keys; a \<^verbatim>\<open>Record<string, JsonValue>\<close> is such a
  list.  Reading a property is \<open>map_of\<close>; the assignment \<^verbatim>\<open>obj[k] = v\<close> is
  \<open>AList.update\<close>, which replaces the value of an existing key in place and appends a new
  key.  Properties inherited from \<^verbatim>\<open>Object.prototype\<close> and the numeric ordering of
  integer-like keys are not modelled.
\<close>

datatype JsonValue =
    JNull
  | JBool bool
  | JNum jsnum
  | JStr string
  | JArr "JsonValue list"
  | JObj "(string \<times> JsonValue) list"

text \<open>\<^verbatim>\<open>Boolean(v)\<close>, \<^verbatim>\<open>typeof v\<close> and \<^verbatim>\<open>Array.isArray(v)\<close>.\<close>

fun truthy :: "JsonValue \<Rightarrow> bool" where
  "truthy JNull = False"
| "truthy (JBool b) = b"
| "truthy (JNum n) = (n \<noteq> NaN \<and> n \<noteq> Fin 0)"
| "truthy (JStr s) = (s \<noteq> [])"
| "truthy (JArr _) = True"
| "truthy (JObj _) = True"

fun typeof :: "JsonValue \<Rightarrow> string" where
  "typeof JNull = ''object''"
| "typeof (JBool _) = ''boolean''"
| "typeof (JNum _) = ''number''"
| "typeof (JStr _) = ''string''"
| "typeof (JArr _) = ''object''"
| "typeof (JObj _) = ''object''"

fun isArray :: "JsonValue \<Rightarrow> bool" where
  "isArray (JArr _) = True"
| "isArray _ = False"

text \<open>\<^verbatim>\<open>isPlainObject\<close> of \<^verbatim>\<open>pages/HomePage.tsx\<close>.\<close>

definition isPlainObject :: "JsonValue \<Rightarrow> bool" where
  "isPlainObject v = (truthy v \<and> typeof v = ''object'' \<and> \<not> isArray v)"

text \<open>\<^verbatim>\<open>Object.entries(v)\<close> for a value that passed \<^verbatim>\<open>isPlainObject\<close>.\<close>

fun entries :: "JsonValue \<Rightarrow> (string \<times> JsonValue) list" where
  "entries (JObj kvs) = kvs"
| "entries _ = []"

text \<open>
  \<^verbatim>\<open>deepMerge\<close> of \<^verbatim>\<open>pages/HomePage.tsx\<close>.  The first argument of the recursion
  is the variable \<^verbatim>\<open>merged\<close>, which starts as the copy \<^verbatim>\<open>{ ...base }\<close>; the second
  is the rest of \<^verbatim>\<open>Object.entries(patch)\<close>.  A missing \<^verbatim>\<open>merged[k]\<close> is
  \<^verbatim>\<open>undefined\<close>, which is not a plain object.
\<close>

function deepMerge ::
  "(string \<times> JsonValue) list \<Rightarrow> (string \<times> JsonValue) list \<Rightarrow> (string \<times> JsonValue) list"
where
  "deepMerge base [] = base"
| "deepMerge base ((k, v) # patch) =
     deepMerge
       (case map_of base k of
          Some prev \<Rightarrow>
            if isPlainObject prev \<and> isPlainObject v
            then AList.update k (JObj (deepMerge (entries prev) (entries v))) base
            else AList.update k v base
        | None \<Rightarrow> AList.update k v base)
       patch"
  by pat_completeness auto

termination
proof (relation "measure (\<lambda>(b, p). size_list (size_prod (\<lambda>_. 0) size) p)")
  fix base :: "(string \<times> JsonValue) list" and k v patch prev
  assume "map_of base k = Some prev" "isPlainObject prev \<and> isPlainObject v"
  then show "((entries prev, entries v), base, (k, v) # patch)
      \<in> measure (\<lambda>(b, p). size_list (size_prod (\<lambda>_. 0) size) p)"
    by (cases v) (simp_all add: isPlainObject_def)
qed simp_all

subsection \<open>The form of the home page\<close>

text \<open>
  Two built-ins of JavaScript are parameters of the model.  \<open>Number\<close> is the
  conversion of a string to a number.  \<open>JSON_parse\<close> stands for
  \<^verbatim>\<open>JSON.parse(text) as Record<string, JsonValue>\<close>: it gives the properties of
  the parsed object, or \<open>None\<close> when the text is not JSON and \<^verbatim>\<open>JSON.parse\<close>
  throws.  The cast is not checked when the program runs; for a parsed value that is
  not an object the properties meant are the own ones that the copy
  \<^verbatim>\<open>{ ...(base || {}) }\<close> of \<^verbatim>\<open>deepMerge\<close> takes from it, none for
  \<^verbatim>\<open>null\<close>, a number or a boolean.
\<close>

record JsEnv =
  Number :: "string \<Rightarrow> jsnum"
  JSON_parse :: "string \<Rightarrow> (string \<times> JsonValue) list option"

text \<open>
  The state of \<^verbatim>\<open>HomePage\<close> that \<^verbatim>\<open>onRun\<close> reads to build
  \<^verbatim>\<open>config_overrides\<close>; every text field is the string the user typed.
\<close>

record FormState =
  overridesText :: string
  useFeatureOverrides :: bool
  alphaTypes :: "string list"
  instrumentName :: string
  useLabelOverrides :: bool
  labelWindow :: string
  labelLookForward :: string
  labelType :: string
  labelFilterType :: string
  labelThreshold :: string
  useTrainingOverrides :: bool
  numBoostRound :: string
  numThreads :: string
  useInterpretationOverrides :: bool
  shapMaxSamples :: string
  shapMaxDisplay :: string
  useAnalysisOverrides :: bool
  selectedFeaturesText :: string
  maxFeatures :: string
  maxDepth :: string
  minSamplesSplit :: string
  minSamplesLeaf :: string
  minRuleSamples :: string
  analysisLabelThreshold :: string
  useBacktestOverrides :: bool
  positionFraction :: string
  positionNotional :: string
  orderIntervalMinutes :: string
  lookForwardBars :: string
  pnlMode :: string
  backtestType :: string
  backtestFilterType :: string
  minRuleConfidence :: string
  winProfit :: string
  lossCost :: string
  initialBalance :: string
  feeRate :: string
  slippageBps :: string
  useWalkForwardOverrides :: bool
  walkForwardEnabled :: bool
  trainBars :: string
  testBars :: string
  stepBars :: string
  maxWindows :: string

text \<open>
  One constructor for each \<^verbatim>\<open>throw new Error(...)\<close> of \<^verbatim>\<open>onRun\<close>, in the order
  of the source, and one for the exception of \<^verbatim>\<open>JSON.parse\<close>.  The message of
  \<open>LabelWindowInvalid\<close> says that the window must be an integer \<open>\<ge> 3\<close>; the message of
  \<open>LabelWindowEven\<close> says that an odd window is advised, for example 29.
\<close>

datatype RunError =
    JsonSyntaxError
  | AlphaTypesEmpty
  | LabelWindowInvalid
  | LabelWindowEven
  | LabelLookForwardInvalid
  | LabelThresholdInvalid
  | NumBoostRoundInvalid
  | NumThreadsInvalid
  | MaxSamplesInvalid
  | MaxDisplayInvalid
  | MaxFeaturesInvalid
  | MaxDepthInvalid
  | MinSamplesSplitInvalid
  | MinSamplesLeafInvalid
  | MinRuleSamplesInvalid
  | AnalysisLabelThresholdInvalid
  | PositionFractionInvalid
  | PositionNotionalInvalid
  | OrderIntervalInvalid
  | FeeRateInvalid
  | SlippageBpsInvalid
  | LookForwardBarsInvalid
  | MinRuleConfidenceInvalid
  | WinProfitInvalid
  | LossCostInvalid
  | InitialBalanceInvalid
  | TrainBarsInvalid
  | TestBarsInvalid
  | StepBarsInvalid
  | MaxWindowsInvalid

text \<open>
  The test \<^verbatim>\<open>!Number.isFinite(x) || x < k || !Number.isInteger(x)\<close>, which the source
  writes out for each integer field.
\<close>

definition not_integer_from :: "real \<Rightarrow> jsnum \<Rightarrow> bool" where
  "not_integer_from k x = (\<not> js_isFinite x \<or> js_lt x (Fin k) \<or> \<not> js_isInteger x)"

text \<open>
  An optional number (\<^verbatim>\<open>number | null\<close>): \<^verbatim>\<open>Number.isFinite\<close> is false on
  \<^verbatim>\<open>null\<close>, and the value stored in the payload is the number or \<^verbatim>\<open>null\<close>.
\<close>

fun isFinite_opt :: "jsnum option \<Rightarrow> bool" where
  "isFinite_opt None = False"
| "isFinite_opt (Some x) = js_isFinite x"

fun json_of_opt :: "jsnum option \<Rightarrow> JsonValue" where
  "json_of_opt None = JNull"
| "json_of_opt (Some x) = JNum x"

text \<open>
  \<^verbatim>\<open>text.split(/\r?\n|,/g)\<close>: the pieces between commas, line feeds and
  carriage-return line-feed pairs; the first argument is the piece being read, reversed.
\<close>

fun split_features :: "string \<Rightarrow> string \<Rightarrow> string list" where
  "split_features cur [] = [rev cur]"
| "split_features cur [c] =
     (if c = CHR '','' \<or> c = CHR 0x0A then [rev cur, []] else [rev (c # cur)])"
| "split_features cur (c # d # cs) =
     (if c = CHR '','' \<or> c = CHR 0x0A then rev cur # split_features [] (d # cs)
      else if c = CHR 0x0D \<and> d = CHR 0x0A then rev cur # split_features [] cs
      else split_features (c # cur) (d # cs))"

subsection \<open>The blocks of \<^verbatim>\<open>onRun\<close>\<close>

text \<open>
  Each \<^verbatim>\<open>if (useXOverrides) { ... }\<close> block of \<^verbatim>\<open>onRun\<close> either throws or
  assigns at most one key of \<^verbatim>\<open>form_overrides\<close>.  A block is modelled by the error it
  throws or the list of the properties it assigns, which is empty when the stage is
  disabled.
\<close>

definition feature_block :: "FormState \<Rightarrow> RunError + (string \<times> JsonValue) list" where
  "feature_block st =
     (if useFeatureOverrides st then
        let cleaned = filter (\<lambda>t. t \<noteq> []) (map trim (alphaTypes st))
        in if length cleaned = 0 then Inl AlphaTypesEmpty
           else Inr [(''feature_calculation'', JObj
                  [(''alpha_types'', JArr (map JStr cleaned)),
                   (''instrument_name'',
                      if trim (instrumentName st) \<noteq> [] then JStr (trim (instrumentName st))
                      else JNull)])]
      else Inr [])"

definition label_block :: "JsEnv \<Rightarrow> FormState \<Rightarrow> RunError + (string \<times> JsonValue) list" where
  "label_block env st =
     (if useLabelOverrides st then
        let window = Number env (labelWindow st);
            lookForward = Number env (labelLookForward st)
        in if \<not> js_isFinite window \<or> js_lt window (Fin 3) \<or> \<not> js_isInteger window
           then Inl LabelWindowInvalid
           else if js_eq (js_rem window (Fin 2)) (Fin 0) then Inl LabelWindowEven
           else if \<not> js_isFinite lookForward \<or> js_lt lookForward (Fin 1)
                   \<or> \<not> js_isInteger lookForward
           then Inl LabelLookForwardInvalid
           else
             let t = trim (labelType st);
                 f = trim (labelFilterType st);
                 thText = trim (labelThreshold st);
                 th = (if thText \<noteq> [] then Some (Number env thText) else None)
             in if thText \<noteq> [] \<and> (\<not> isFinite_opt th \<or> th = None)
                then Inl LabelThresholdInvalid
                else Inr [(''label_calculation'', JObj
                       [(''window'', JNum window),
                        (''look_forward'', JNum lookForward),
                        (''label_type'', JStr t),
                        (''filter_type'', JStr f),
                        (''threshold'', if thText \<noteq> [] then json_of_opt th else JNull)])]
      else Inr [])"

definition training_block :: "JsEnv \<Rightarrow> FormState \<Rightarrow> RunError + (string \<times> JsonValue) list" where
  "training_block env st =
     (if useTrainingOverrides st then
        let rounds = Number env (numBoostRound st);
            threads = Number env (numThreads st)
        in if not_integer_from 1 rounds then Inl NumBoostRoundInvalid
           else if not_integer_from 1 threads then Inl NumThreadsInvalid
           else Inr [(''model_training'', JObj
                  [(''num_boost_round'', JNum rounds), (''num_threads'', JNum threads)])]
      else Inr [])"

definition interpretation_block ::
  "JsEnv \<Rightarrow> FormState \<Rightarrow> RunError + (string \<times> JsonValue) list" where
  "interpretation_block env st =
     (if useInterpretationOverrides st then
        let ms = Number env (shapMaxSamples st);
            md = Number env (shapMaxDisplay st)
        in if not_integer_from 1 ms then Inl MaxSamplesInvalid
           else if not_integer_from 1 md then Inl MaxDisplayInvalid
           else Inr [(''model_interpretation'', JObj
                  [(''max_samples'', JNum ms), (''max_display'', JNum md)])]
      else Inr [])"

definition analysis_block :: "JsEnv \<Rightarrow> FormState \<Rightarrow> RunError + (string \<times> JsonValue) list" where
  "analysis_block env st =
     (if useAnalysisOverrides st then
        let mf = Number env (maxFeatures st);
            md = Number env (maxDepth st);
            mss = Number env (minSamplesSplit st);
            msl = Number env (minSamplesLeaf st);
            mrs = Number env (minRuleSamples st)
        in if not_integer_from 1 mf then Inl MaxFeaturesInvalid
           else if not_integer_from 1 md then Inl MaxDepthInvalid
           else if not_integer_from 2 mss then Inl MinSamplesSplitInvalid
           else if not_integer_from 1 msl then Inl MinSamplesLeafInvalid
           else if not_integer_from 1 mrs then Inl MinRuleSamplesInvalid
           else
             let thText = trim (analysisLabelThreshold st);
                 th = (if thText \<noteq> [] then Some (Number env thText) else None)
             in if thText \<noteq> [] \<and> (\<not> isFinite_opt th \<or> th = None)
                then Inl AnalysisLabelThresholdInvalid
                else
                  let selected = filter (\<lambda>s. s \<noteq> [])
                        (map trim (split_features [] (selectedFeaturesText st)))
                  in Inr [(''model_analysis'', JObj
                       [(''selected_features'',
                           if length selected > 0 then JArr (map JStr selected) else JNull),
                        (''max_features'', JNum mf),
                        (''max_depth'', JNum md),
                        (''min_samples_split'', JNum mss),
                        (''min_samples_leaf'', JNum msl),
                        (''min_rule_samples'', JNum mrs),
                        (''label_threshold'', if thText \<noteq> [] then json_of_opt th else JNull)])]
      else Inr [])"

definition backtest_block :: "JsEnv \<Rightarrow> FormState \<Rightarrow> RunError + (string \<times> JsonValue) list" where
  "backtest_block env st =
     (if useBacktestOverrides st then
        let pf = Number env (positionFraction st);
            pnText = trim (positionNotional st);
            pn = (if pnText \<noteq> [] then Some (Number env pnText) else None);
            oi = Number env (orderIntervalMinutes st);
            fr = Number env (feeRate st);
            sb = Number env (slippageBps st);
            lf = Number env (lookForwardBars st);
            mrc = Number env (minRuleConfidence st);
            wp = Number env (winProfit st);
            lc = Number env (lossCost st);
            ib = Number env (initialBalance st)
        in if \<not> js_isFinite pf \<or> js_le pf (Fin 0) \<or> js_gt pf (Fin 1)
           then Inl PositionFractionInvalid
           else if pnText \<noteq> [] \<and> (\<not> isFinite_opt pn \<or> pn = None
                     \<or> (case pn of Some x \<Rightarrow> js_le x (Fin 0) | None \<Rightarrow> True))
           then Inl PositionNotionalInvalid
           else if \<not> js_isFinite oi \<or> js_lt oi (Fin 0) \<or> \<not> js_isInteger oi
           then Inl OrderIntervalInvalid
           else if \<not> js_isFinite fr \<or> js_lt fr (Fin 0) then Inl FeeRateInvalid
           else if \<not> js_isFinite sb \<or> js_lt sb (Fin 0) then Inl SlippageBpsInvalid
           else if not_integer_from 1 lf then Inl LookForwardBarsInvalid
           else if \<not> js_isFinite mrc \<or> js_lt mrc (Fin 0) \<or> js_gt mrc (Fin 1)
           then Inl MinRuleConfidenceInvalid
           else if \<not> js_isFinite wp \<or> js_le wp (Fin 0) then Inl WinProfitInvalid
           else if \<not> js_isFinite lc \<or> js_le lc (Fin 0) then Inl LossCostInvalid
           else if \<not> js_isFinite ib \<or> js_le ib (Fin 0) then Inl InitialBalanceInvalid
           else Inr [(''backtest_construction'', JObj
                  [(''look_forward_bars'', JNum lf),
                   (''pnl_mode'', JStr (pnlMode st)),
                   (''backtest_type'', JStr (backtestType st)),
                   (''filter_type'', JStr (backtestFilterType st)),
                   (''position_fraction'', JNum pf),
                   (''position_notional'', if pnText \<noteq> [] then json_of_opt pn else JNull),
                   (''order_interval_minutes'', JNum oi),
                   (''fee_rate'', JNum fr),
                   (''slippage_bps'', JNum sb),
                   (''min_rule_confidence'', JNum mrc),
                   (''win_profit'', JNum wp),
                   (''loss_cost'', JNum lc),
                   (''initial_balance'', JNum ib)])]
      else Inr [])"

definition walk_forward_block ::
  "JsEnv \<Rightarrow> FormState \<Rightarrow> RunError + (string \<times> JsonValue) list" where
  "walk_forward_block env st =
     (if useWalkForwardOverrides st then
        let train = Number env (trainBars st);
            test = Number env (testBars st);
            step = Number env (stepBars st);
            maxW = Number env (maxWindows st)
        in if not_integer_from 1 train then Inl TrainBarsInvalid
           else if not_integer_from 1 test then Inl TestBarsInvalid
           else if not_integer_from 1 step then Inl StepBarsInvalid
           else if not_integer_from 1 maxW then Inl MaxWindowsInvalid
           else Inr [(''walk_forward_evaluation'', JObj
                  [(''enabled'', JBool (walkForwardEnabled st)),
                   (''train_bars'', JNum train),
                   (''test_bars'', JNum test),
                   (''step_bars'', JNum step),
                   (''max_windows'', JNum maxW)])]
      else Inr [])"

text \<open>
  The blocks run in the order of the source; the first one that throws ends the run, and
  otherwise \<^verbatim>\<open>form_overrides\<close> holds the assigned properties in that order.
\<close>

fun run_blocks :: "(RunError + (string \<times> JsonValue) list) list \<Rightarrow> RunError + (string \<times> JsonValue) list" where
  "run_blocks [] = Inr []"
| "run_blocks (Inl e # _) = Inl e"
| "run_blocks (Inr kvs # rest) =
     (case run_blocks rest of Inl e \<Rightarrow> Inl e | Inr others \<Rightarrow> Inr (kvs @ others))"

definition form_overrides :: "JsEnv \<Rightarrow> FormState \<Rightarrow> RunError + (string \<times> JsonValue) list" where
  "form_overrides env st =
     run_blocks
       [feature_block st, label_block env st, training_block env st,
        interpretation_block env st, analysis_block env st, backtest_block env st,
        walk_forward_block env st]"

text \<open>
  \<^verbatim>\<open>onRun\<close> of \<^verbatim>\<open>pages/HomePage.tsx\<close> up to the call of \<^verbatim>\<open>api.runPipeline\<close>:
  the result is the error that the \<^verbatim>\<open>catch\<close> clause reports, or the
  \<^verbatim>\<open>config_overrides\<close> of the request.
\<close>

definition onRun :: "JsEnv \<Rightarrow> FormState \<Rightarrow> RunError + (string \<times> JsonValue) list" where
  "onRun env st =
     (case (if trim (overridesText st) \<noteq> [] then JSON_parse env (overridesText st) else Some [])
      of None \<Rightarrow> Inl JsonSyntaxError
       | Some config_overrides \<Rightarrow>
           (case form_overrides env st of
              Inl e \<Rightarrow> Inl e
            | Inr form \<Rightarrow> Inr (deepMerge config_overrides form)))"

text \<open>The initial state of the page, as its \<^verbatim>\<open>useState\<close> calls give it.\<close>

definition initial_form :: FormState where
  "initial_form =
     \<lparr>overridesText = [],
      useFeatureOverrides = False, alphaTypes = [''alpha158''], instrumentName = [],
      useLabelOverrides = False, labelWindow = ''29'', labelLookForward = ''10'',
      labelType = ''up'', labelFilterType = ''rsi'', labelThreshold = [],
      useTrainingOverrides = False, numBoostRound = ''500'', numThreads = ''4'',
      useInterpretationOverrides = False, shapMaxSamples = ''5000'', shapMaxDisplay = ''20'',
      useAnalysisOverrides = False, selectedFeaturesText = [], maxFeatures = ''8'',
      maxDepth = ''3'', minSamplesSplit = ''100'', minSamplesLeaf = ''50'',
      minRuleSamples = ''50'', analysisLabelThreshold = [],
      useBacktestOverrides = False, positionFraction = ''1.0'', positionNotional = [],
      orderIntervalMinutes = ''30'', lookForwardBars = ''10'', pnlMode = ''price'',
      backtestType = ''long'', backtestFilterType = ''rsi'', minRuleConfidence = ''0.0'',
      winProfit = ''4.0'', lossCost = ''5.0'', initialBalance = ''1000.0'',
      feeRate = ''0.0004'', slippageBps = ''0'',
      useWalkForwardOverrides = False, walkForwardEnabled = True, trainBars = ''20000'',
      testBars = ''5000'', stepBars = ''5000'', maxWindows = ''10''\<rparr>"

text \<open>
  An environment for the examples: \<open>Number\<close> on a string of decimal digits, which is
  all the examples convert, and a \<open>JSON_parse\<close> that knows the one text
  \<^verbatim>\<open>{"label_calculation": {"window": 5, "note": "raw"}}\<close>.
\<close>

definition example_env :: JsEnv where
  \<open>example_env =
     \<lparr>Number = Number_digits,
      JSON_parse = (\<lambda>text.
        if text = ''{"label_calculation": {"window": 5, "note": "raw"}}''
        then Some [(''label_calculation'',
               JObj [(''window'', JNum (Fin 5)), (''note'', JStr ''raw'')])]
        else None)\<rparr>\<close>

section \<open>BacktestAssessor\<close>










section \<open>Reference definitions taken from the specification\<close>










section \<open>Auxiliary definitions\<close>


text \<open>
  The stages of the pipeline that the form can override, each with the key it has in
  \<^verbatim>\<open>form_overrides\<close> and its "override enabled" flag, in the order of the source.
\<close>

definition stage_flags :: "FormState \<Rightarrow> (string \<times> bool) list" where
  "stage_flags st =
     [(''feature_calculation'', useFeatureOverrides st),
      (''label_calculation'', useLabelOverrides st),
      (''model_training'', useTrainingOverrides st),
      (''model_interpretation'', useInterpretationOverrides st),
      (''model_analysis'', useAnalysisOverrides st),
      (''backtest_construction'', useBacktestOverrides st),
      (''walk_forward_evaluation'', useWalkForwardOverrides st)]"

text \<open>
  The shape of what the blocks of \<^verbatim>\<open>onRun\<close> assign: an object whose keys are
  pairwise different and whose values are numbers, strings, booleans, arrays or null,
  never objects.
\<close>

definition flat_fields :: "(string \<times> JsonValue) list \<Rightarrow> bool" where
  "flat_fields fs =
     (distinct (map fst fs) \<and> list_all (\<lambda>(f, x). \<not> isPlainObject x) fs)"

definition flat_stage :: "string \<times> JsonValue \<Rightarrow> bool" where
  "flat_stage kv = (isPlainObject (snd kv) \<and> flat_fields (entries (snd kv)))"

section \<open>Auxiliary facts\<close>

subsection \<open>Numbers\<close>



lemma js_floor_div_int:
  "c \<noteq> 0 \<Longrightarrow> js_floor (js_div (Fin (of_int a)) (Fin (of_int c))) = Fin (of_int (a div c))"
  by (simp add: floor_divide_of_int_eq)


subsection \<open>Intervals\<close>








subsection \<open>Dates\<close>














subsection \<open>Window recommendation\<close>

















subsection \<open>Merging and the form\<close>

lemma map_of_update_other: "k' \<noteq> k \<Longrightarrow> map_of (AList.update k v al) k' = map_of al k'"
  by (simp add: update_conv')

lemma deepMerge_lookup:
  "distinct (map fst patch) \<Longrightarrow>
   map_of (deepMerge base patch) k =
     (case map_of patch k of
        None \<Rightarrow> map_of base k
      | Some v \<Rightarrow>
          (case map_of base k of
             Some prev \<Rightarrow>
               if isPlainObject prev \<and> isPlainObject v
               then Some (JObj (deepMerge (entries prev) (entries v)))
               else Some v
           | None \<Rightarrow> Some v))"
proof (induction patch arbitrary: base)
  case Nil
  then show ?case by simp
next
  case (Cons p patch)
  obtain k' v' where p: "p = (k', v')" by (cases p)
  define merged where "merged =
       (case map_of base k' of
          Some prev \<Rightarrow>
            if isPlainObject prev \<and> isPlainObject v'
            then AList.update k' (JObj (deepMerge (entries prev) (entries v'))) base
            else AList.update k' v' base
        | None \<Rightarrow> AList.update k' v' base)"
  from Cons.prems have d: "distinct (map fst patch)" and nk: "k' \<notin> fst ` set patch"
    by (simp_all add: p)
  have step: "deepMerge base (p # patch) = deepMerge merged patch"
    by (simp add: p merged_def)
  have ih: "map_of (deepMerge merged patch) k =
     (case map_of patch k of
        None \<Rightarrow> map_of merged k
      | Some v \<Rightarrow>
          (case map_of merged k of
             Some prev \<Rightarrow>
               if isPlainObject prev \<and> isPlainObject v
               then Some (JObj (deepMerge (entries prev) (entries v)))
               else Some v
           | None \<Rightarrow> Some v))"
    by (rule Cons.IH [OF d])
  show ?case
  proof (cases "k = k'")
    case True
    have none: "map_of patch k = None"
      using nk True by (simp add: map_of_eq_None_iff)
    have "map_of merged k' =
       (case map_of base k' of
          Some prev \<Rightarrow>
            if isPlainObject prev \<and> isPlainObject v'
            then Some (JObj (deepMerge (entries prev) (entries v')))
            else Some v'
        | None \<Rightarrow> Some v')"
      by (simp add: merged_def update_conv' split: option.splits)
    then show ?thesis
      unfolding step ih none using True by (simp add: p)
  next
    case False
    have same: "map_of merged k = map_of base k"
      using False by (simp add: merged_def map_of_update_other split: option.splits)
    show ?thesis
      unfolding step ih same using False by (simp add: p)
  qed
qed

lemma json_of_opt_flat: "\<not> isPlainObject (json_of_opt th)"
  by (cases th) (simp_all add: isPlainObject_def)

lemma feature_block_shape:
  "feature_block st = Inr kvs \<Longrightarrow>
     (if useFeatureOverrides st
      then \<exists>fs. kvs = [(''feature_calculation'', JObj fs)] \<and> flat_fields fs
      else kvs = [])"
  by (auto simp: feature_block_def Let_def flat_fields_def isPlainObject_def split: if_splits)

lemma label_block_shape:
  "label_block env st = Inr kvs \<Longrightarrow>
     (if useLabelOverrides st
      then \<exists>fs. kvs = [(''label_calculation'', JObj fs)] \<and> flat_fields fs
      else kvs = [])"
  by (auto simp: label_block_def Let_def flat_fields_def isPlainObject_def json_of_opt_flat
      split: if_splits)

lemma training_block_shape:
  "training_block env st = Inr kvs \<Longrightarrow>
     (if useTrainingOverrides st
      then \<exists>fs. kvs = [(''model_training'', JObj fs)] \<and> flat_fields fs
      else kvs = [])"
  by (auto simp: training_block_def Let_def flat_fields_def isPlainObject_def split: if_splits)

lemma interpretation_block_shape:
  "interpretation_block env st = Inr kvs \<Longrightarrow>
     (if useInterpretationOverrides st
      then \<exists>fs. kvs = [(''model_interpretation'', JObj fs)] \<and> flat_fields fs
      else kvs = [])"
  by (auto simp: interpretation_block_def Let_def flat_fields_def isPlainObject_def
      split: if_splits)

lemma analysis_block_shape:
  "analysis_block env st = Inr kvs \<Longrightarrow>
     (if useAnalysisOverrides st
      then \<exists>fs. kvs = [(''model_analysis'', JObj fs)] \<and> flat_fields fs
      else kvs = [])"
  by (auto simp: analysis_block_def Let_def flat_fields_def isPlainObject_def json_of_opt_flat
      split: if_splits)

lemma walk_forward_block_shape:
  "walk_forward_block env st = Inr kvs \<Longrightarrow>
     (if useWalkForwardOverrides st
      then \<exists>fs. kvs = [(''walk_forward_evaluation'', JObj fs)] \<and> flat_fields fs
      else kvs = [])"
  by (auto simp: walk_forward_block_def Let_def flat_fields_def isPlainObject_def
      split: if_splits)

lemma backtest_block_shape:
  "backtest_block env st = Inr kvs \<Longrightarrow>
     (if useBacktestOverrides st
      then \<exists>fs. kvs = [(''backtest_construction'', JObj fs)] \<and> flat_fields fs
      else kvs = [])"
  by (auto simp: backtest_block_def Let_def flat_fields_def isPlainObject_def json_of_opt_flat
      split: if_splits)

lemma isPlainObject_iff: "isPlainObject v \<longleftrightarrow> (\<exists>kvs. v = JObj kvs)"
  by (cases v) (simp_all add: isPlainObject_def)

lemma shape_keys:
  "(if flag then \<exists>fs. kvs = [(key, JObj fs)] \<and> flat_fields fs else kvs = []) \<Longrightarrow>
     map fst kvs = (if flag then [key] else []) \<and> list_all flat_stage kvs"
  by (auto simp: flat_stage_def isPlainObject_def split: if_splits)

lemma form_overrides_Inr:
  "form_overrides env st = Inr form \<Longrightarrow>
     \<exists>k1 k2 k3 k4 k5 k6 k7.
        feature_block st = Inr k1 \<and> label_block env st = Inr k2
        \<and> training_block env st = Inr k3 \<and> interpretation_block env st = Inr k4
        \<and> analysis_block env st = Inr k5 \<and> backtest_block env st = Inr k6
        \<and> walk_forward_block env st = Inr k7
        \<and> form = k1 @ k2 @ k3 @ k4 @ k5 @ k6 @ k7"
  unfolding form_overrides_def
  by (cases "feature_block st"; cases "label_block env st"; cases "training_block env st";
      cases "interpretation_block env st"; cases "analysis_block env st";
      cases "backtest_block env st"; cases "walk_forward_block env st") auto

lemma form_overrides_shape:
  assumes "form_overrides env st = Inr form"
  shows "map fst form = map fst (filter snd (stage_flags st))"
    and "list_all flat_stage form"
    and "distinct (map fst form)"
proof -
  from form_overrides_Inr [OF assms] obtain k1 k2 k3 k4 k5 k6 k7 where
    b: "feature_block st = Inr k1" "label_block env st = Inr k2"
      "training_block env st = Inr k3" "interpretation_block env st = Inr k4"
      "analysis_block env st = Inr k5" "backtest_block env st = Inr k6"
      "walk_forward_block env st = Inr k7"
    and form: "form = k1 @ k2 @ k3 @ k4 @ k5 @ k6 @ k7" by blast
  note s = shape_keys [OF feature_block_shape [OF b(1)]]
    shape_keys [OF label_block_shape [OF b(2)]]
    shape_keys [OF training_block_shape [OF b(3)]]
    shape_keys [OF interpretation_block_shape [OF b(4)]]
    shape_keys [OF analysis_block_shape [OF b(5)]]
    shape_keys [OF backtest_block_shape [OF b(6)]]
    shape_keys [OF walk_forward_block_shape [OF b(7)]]
  show keys: "map fst form = map fst (filter snd (stage_flags st))"
    unfolding form using s by (simp add: stage_flags_def)
  show "list_all flat_stage form"
    unfolding form using s by simp
  have "distinct (map fst (stage_flags st))"
    by (simp add: stage_flags_def)
  then show "distinct (map fst form)"
    unfolding keys by (rule distinct_map_filter)
qed

lemma deepMerge_flat_field:
  assumes "flat_fields fs" "map_of fs f = Some x"
  shows "map_of (deepMerge base fs) f = Some x"
proof -
  from assms have d: "distinct (map fst fs)" and "(f, x) \<in> set fs"
    by (auto simp: flat_fields_def dest: map_of_SomeD)
  with assms(1) have "\<not> isPlainObject x"
    by (auto simp: flat_fields_def list_all_iff)
  then show ?thesis
    by (simp add: deepMerge_lookup [OF d] assms(2) split: option.splits)
qed

lemma payload_field:
  assumes d: "distinct (map fst form)" and fl: "list_all flat_stage form"
    and s: "map_of form s = Some (JObj fs)" and f: "map_of fs f = Some x"
  shows "\<exists>merged. map_of (deepMerge raw form) s = Some (JObj merged) \<and> map_of merged f = Some x"
proof -
  from s have "(s, JObj fs) \<in> set form" by (rule map_of_SomeD)
  with fl have ff: "flat_fields fs"
    by (auto simp: list_all_iff flat_stage_def)
  show ?thesis
  proof (cases "\<exists>prev. map_of raw s = Some prev \<and> isPlainObject prev")
    case True
    then obtain prev where p: "map_of raw s = Some prev" "isPlainObject prev" by blast
    have "map_of (deepMerge raw form) s = Some (JObj (deepMerge (entries prev) fs))"
      using p(2) by (simp add: deepMerge_lookup [OF d] s p(1) isPlainObject_iff)
    then show ?thesis
      using deepMerge_flat_field [OF ff f] by blast
  next
    case False
    then have "map_of (deepMerge raw form) s = Some (JObj fs)"
      by (auto simp: deepMerge_lookup [OF d] s split: option.splits)
    then show ?thesis using f by blast
  qed
qed

lemma js_rem_2: "0 \<le> w \<Longrightarrow> js_eq (js_rem (Fin (of_int w)) (Fin 2)) (Fin 0) \<longleftrightarrow> even w"
proof -
  assume w: "0 \<le> w"
  have t: "js_trunc (of_int w / 2) = w div 2"
    using w floor_divide_of_int_eq [of w 2] by (simp add: js_trunc_def)
  have "(of_int w :: real) - 2 * of_int (w div 2) = of_int (w mod 2)"
    unfolding minus_mult_div_eq_mod [symmetric] by simp
  then have "js_rem (Fin (of_int w)) (Fin 2) = Fin (of_int (w mod 2))"
    by (simp add: t)
  then show ?thesis
    by (simp add: even_iff_mod_2_eq_zero)
qed

lemma label_block_window:
  assumes "useLabelOverrides st" "Number env (labelWindow st) = Fin (of_int w)" "3 \<le> w"
  shows "even w \<Longrightarrow> label_block env st = Inl LabelWindowEven"
    and "odd w \<Longrightarrow> label_block env st \<noteq> Inl LabelWindowInvalid \<and> label_block env st \<noteq> Inl LabelWindowEven"
proof -
  have ok: "\<not> (\<not> js_isFinite (Fin (of_int w)) \<or> js_lt (Fin (of_int w)) (Fin 3)
      \<or> \<not> js_isInteger (Fin (of_int w)))"
    using assms(3) by simp
  have r: "js_eq (js_rem (Fin (of_int w)) (Fin 2)) (Fin 0) \<longleftrightarrow> even w"
    using assms(3) by (intro js_rem_2) simp
  show "even w \<Longrightarrow> label_block env st = Inl LabelWindowEven"
    unfolding label_block_def Let_def assms(2) using assms(1) ok r by simp
  show "odd w \<Longrightarrow> label_block env st \<noteq> Inl LabelWindowInvalid \<and> label_block env st \<noteq> Inl LabelWindowEven"
    unfolding label_block_def Let_def assms(2) using assms(1) ok r by simp
qed

lemma onRun_label_error:
  assumes "label_block env st = Inl e"
  shows "\<exists>e'. onRun env st = Inl e'"
proof -
  have "\<exists>e'. form_overrides env st = Inl e'"
    unfolding form_overrides_def using assms by (cases "feature_block st") simp_all
  then show ?thesis
    unfolding onRun_def by (auto split: option.splits)
qed

lemma label_block_accepts:
  assumes "useLabelOverrides st" "label_block env st = Inr kvs"
  shows "\<exists>w. Number env (labelWindow st) = Fin (of_int w) \<and> 3 \<le> w \<and> odd w"
proof -
  define window where "window = Number env (labelWindow st)"
  from assms have ok: "js_isFinite window" "\<not> js_lt window (Fin 3)" "js_isInteger window"
    and r: "\<not> js_eq (js_rem window (Fin 2)) (Fin 0)"
    unfolding label_block_def Let_def window_def [symmetric]
    by (auto split: if_splits)
  from ok(1) obtain x where x: "window = Fin x" by (cases window) simp_all
  define w where "w = \<lfloor>x\<rfloor>"
  from ok(3) have xw: "x = of_int w" by (auto simp: x w_def)
  from ok(2) have w3: "3 \<le> w" by (simp add: x xw)
  from r have "odd w"
    using js_rem_2 [of w] w3 by (simp add: x xw)
  with xw w3 show ?thesis
    unfolding window_def [symmetric] x by blast
qed

subsection \<open>Assessment\<close>



subsection \<open>Evaluation of the examples\<close>



lemmas onRun_eval =
  onRun_def form_overrides_def feature_block_def label_block_def training_block_def
  interpretation_block_def analysis_block_def backtest_block_def walk_forward_block_def
  not_integer_from_def initial_form_def example_env_def Let_def
  trim_def is_space_def Number_digits_def is_digit_def digits_value_def digit_val_def
  js_trunc_def js_gt_def isPlainObject_def


section \<open>The claims\<close>












text \<open>
  C9.  Merging the empty patch \<^verbatim>\<open>{}\<close> into a configuration \<open>c\<close> returns \<open>c\<close>.  Here
  \<open>c\<close> is an object, a \<^verbatim>\<open>Record<string, JsonValue>\<close>, which is the type of both
  parameters of \<open>deepMerge\<close>.
\<close>

theorem deepMerge_empty_patch: "deepMerge c (entries (JObj [])) = c"
  by simp

text \<open>
  C8.  \<open>onRun\<close> submits a payload exactly when the raw JSON box parses (an empty box is
  the empty object) and every enabled block validates, and the payload is then
  \<open>deepMerge raw form\<close>.  The keys of \<open>form\<close> are the keys of the enabled stages, in
  order, so a disabled stage contributes no key, and a key that \<open>form\<close> lacks keeps the
  value of the raw JSON.  Every field that the form sets under a stage has the value of
  the form in the payload, whatever the raw JSON holds there.
\<close>

theorem onRun_payload:
  "(onRun env st = Inr payload \<longleftrightarrow>
      (\<exists>raw form.
          (if trim (overridesText st) \<noteq> [] then JSON_parse env (overridesText st) else Some [])
            = Some raw
          \<and> form_overrides env st = Inr form \<and> payload = deepMerge raw form))
   \<and> (form_overrides env st = Inr form \<longrightarrow>
        map fst form = map fst (filter snd (stage_flags st)))
   \<and> (form_overrides env st = Inr form \<and> map_of form s = Some (JObj fs) \<and> map_of fs f = Some x
        \<longrightarrow> (\<exists>merged. map_of (deepMerge raw form) s = Some (JObj merged)
                \<and> map_of merged f = Some x))
   \<and> (form_overrides env st = Inr form \<and> map_of form s = None \<longrightarrow>
        map_of (deepMerge raw form) s = map_of raw s)"
proof (intro conjI impI)
  show "onRun env st = Inr payload \<longleftrightarrow>
      (\<exists>raw form.
          (if trim (overridesText st) \<noteq> [] then JSON_parse env (overridesText st) else Some [])
            = Some raw
          \<and> form_overrides env st = Inr form \<and> payload = deepMerge raw form)"
    unfolding onRun_def by (auto split: option.splits sum.splits)
next
  assume "form_overrides env st = Inr form"
  then show "map fst form = map fst (filter snd (stage_flags st))"
    by (rule form_overrides_shape)
next
  assume a: "form_overrides env st = Inr form \<and> map_of form s = Some (JObj fs)
      \<and> map_of fs f = Some x"
  then have *: "form_overrides env st = Inr form"
    and s: "map_of form s = Some (JObj fs)" and f: "map_of fs f = Some x" by simp_all
  show "\<exists>merged. map_of (deepMerge raw form) s = Some (JObj merged)
                \<and> map_of merged f = Some x"
    by (rule payload_field [OF form_overrides_shape(3) [OF *] form_overrides_shape(2) [OF *] s f])
next
  assume a: "form_overrides env st = Inr form \<and> map_of form s = None"
  then have *: "form_overrides env st = Inr form" and s: "map_of form s = None" by simp_all
  show "map_of (deepMerge raw form) s = map_of raw s"
    by (simp add: deepMerge_lookup [OF form_overrides_shape(3) [OF *]] s)
qed

theorem onRun_payload_witness:
  \<open>onRun example_env
      (initial_form\<lparr>useLabelOverrides := True,
         overridesText := ''{"label_calculation": {"window": 5, "note": "raw"}}''\<rparr>)
     = Inr [(''label_calculation'', JObj
         [(''window'', JNum (Fin 29)), (''note'', JStr ''raw''),
          (''look_forward'', JNum (Fin 10)), (''label_type'', JStr ''up''),
          (''filter_type'', JStr ''rsi''), (''threshold'', JNull)])]
   \<and> form_overrides example_env
      (initial_form\<lparr>useLabelOverrides := True,
         overridesText := ''{"label_calculation": {"window": 5, "note": "raw"}}''\<rparr>)
     = Inr [(''label_calculation'', JObj
         [(''window'', JNum (Fin 29)), (''look_forward'', JNum (Fin 10)),
          (''label_type'', JStr ''up''), (''filter_type'', JStr ''rsi''),
          (''threshold'', JNull)])]
   \<and> map fst [(''label_calculation'', JObj
         [(''window'', JNum (Fin 29)), (''look_forward'', JNum (Fin 10)),
          (''label_type'', JStr ''up''), (''filter_type'', JStr ''rsi''),
          (''threshold'', JNull)])]
      = map fst (filter snd (stage_flags
          (initial_form\<lparr>useLabelOverrides := True,
             overridesText := ''{"label_calculation": {"window": 5, "note": "raw"}}''\<rparr>)))
   \<and> (\<exists>merged. map_of (deepMerge
          [(''label_calculation'', JObj [(''window'', JNum (Fin 5)), (''note'', JStr ''raw'')])]
          [(''label_calculation'', JObj
             [(''window'', JNum (Fin 29)), (''look_forward'', JNum (Fin 10)),
              (''label_type'', JStr ''up''), (''filter_type'', JStr ''rsi''),
              (''threshold'', JNull)])]) ''label_calculation'' = Some (JObj merged)
        \<and> map_of merged ''window'' = Some (JNum (Fin 29)))
   \<and> map_of (deepMerge [(''model_training'', JObj [(''num_threads'', JNum (Fin 8))])]
          [(''label_calculation'', JObj
             [(''window'', JNum (Fin 29)), (''look_forward'', JNum (Fin 10)),
              (''label_type'', JStr ''up''), (''filter_type'', JStr ''rsi''),
              (''threshold'', JNull)])]) ''model_training''
      = Some (JObj [(''num_threads'', JNum (Fin 8))])\<close>
proof -
  define st where \<open>st = initial_form\<lparr>useLabelOverrides := True,
         overridesText := ''{"label_calculation": {"window": 5, "note": "raw"}}''\<rparr>\<close>
  define fs where "fs = [(''window'', JNum (Fin 29)), (''look_forward'', JNum (Fin 10)),
          (''label_type'', JStr ''up''), (''filter_type'', JStr ''rsi''),
          (''threshold'', JNull)]"
  define form where "form = [(''label_calculation'', JObj fs)]"
  define raw where "raw = [(''label_calculation'',
      JObj [(''window'', JNum (Fin 5)), (''note'', JStr ''raw'')])]"
  define raw' where "raw' = [(''model_training'', JObj [(''num_threads'', JNum (Fin 8))])]"
  have f: "form_overrides example_env st = Inr form"
    by (simp add: st_def form_def fs_def onRun_eval)
  have r: \<open>onRun example_env st = Inr [(''label_calculation'', JObj
         [(''window'', JNum (Fin 29)), (''note'', JStr ''raw''),
          (''look_forward'', JNum (Fin 10)), (''label_type'', JStr ''up''),
          (''filter_type'', JStr ''rsi''), (''threshold'', JNull)])]\<close>
    by (simp add: st_def onRun_eval)
  have s: "map_of form ''label_calculation'' = Some (JObj fs)"
    by (simp add: form_def)
  have w: "map_of fs ''window'' = Some (JNum (Fin 29))"
    by (simp add: fs_def)
  have n: "map_of form ''model_training'' = None"
    by (simp add: form_def)
  note t = onRun_payload [of example_env st _ form]
  have k: "map fst form = map fst (filter snd (stage_flags st))"
    using t f by simp
  have p: "\<exists>merged. map_of (deepMerge raw form) ''label_calculation'' = Some (JObj merged)
             \<and> map_of merged ''window'' = Some (JNum (Fin 29))"
    using onRun_payload [of example_env st _ form "''label_calculation''" fs "''window''"
        "JNum (Fin 29)" raw] f s w
    by simp
  have q: "map_of (deepMerge raw' form) ''model_training'' = map_of raw' ''model_training''"
    using onRun_payload [of example_env st _ form "''model_training''" _ _ _ raw'] f n
    by simp
  have q': "map_of (deepMerge raw' form) ''model_training''
      = Some (JObj [(''num_threads'', JNum (Fin 8))])"
    unfolding q by (simp add: raw'_def)
  have "onRun example_env st = Inr [(''label_calculation'', JObj
         [(''window'', JNum (Fin 29)), (''note'', JStr ''raw''),
          (''look_forward'', JNum (Fin 10)), (''label_type'', JStr ''up''),
          (''filter_type'', JStr ''rsi''), (''threshold'', JNull)])]
    \<and> form_overrides example_env st = Inr form
    \<and> map fst form = map fst (filter snd (stage_flags st))
    \<and> (\<exists>merged. map_of (deepMerge raw form) ''label_calculation'' = Some (JObj merged)
             \<and> map_of merged ''window'' = Some (JNum (Fin 29)))
    \<and> map_of (deepMerge raw' form) ''model_training''
      = Some (JObj [(''num_threads'', JNum (Fin 8))])"
    by (intro conjI) (rule r f k p q')+
  then show ?thesis
    unfolding st_def form_def fs_def raw_def raw'_def .
qed

text \<open>
  C1, as the specification states it, fails: with the label override enabled and the
  window 30, an even integer \<open>\<ge> 3\<close>, \<open>onRun\<close> raises the error whose message advises an
  odd window, and nothing is submitted.
\<close>

theorem label_window_even_rejected:
  "onRun example_env (initial_form\<lparr>useLabelOverrides := True, labelWindow := ''30''\<rparr>)
     = Inl LabelWindowEven"
  by (simp add: onRun_eval)

text \<open>
  C1, amended.  With the label override enabled, an integer window \<open>\<ge> 3\<close> passes the
  window checks exactly when it is odd: an even one raises \<open>LabelWindowEven\<close> and the
  submission fails, an odd one raises neither of the two window errors, and a label
  block that validates has an odd integer window \<open>\<ge> 3\<close>.
\<close>

theorem label_window_validation:
  "(useLabelOverrides st \<and> Number env (labelWindow st) = Fin (of_int w) \<and> 3 \<le> w \<longrightarrow>
      (even w \<longrightarrow> label_block env st = Inl LabelWindowEven \<and> (\<exists>e. onRun env st = Inl e))
      \<and> (odd w \<longrightarrow> label_block env st \<noteq> Inl LabelWindowInvalid
                   \<and> label_block env st \<noteq> Inl LabelWindowEven))
   \<and> (useLabelOverrides st \<and> label_block env st = Inr kvs \<longrightarrow>
        (\<exists>v. Number env (labelWindow st) = Fin (of_int v) \<and> 3 \<le> v \<and> odd v))"
proof (intro conjI impI)
  assume a: "useLabelOverrides st \<and> Number env (labelWindow st) = Fin (of_int w) \<and> 3 \<le> w"
    and e: "even w"
  then show "label_block env st = Inl LabelWindowEven"
    by (intro label_block_window(1) [of st env w]) simp_all
  then show "\<exists>e. onRun env st = Inl e"
    by (rule onRun_label_error)
next
  assume a: "useLabelOverrides st \<and> Number env (labelWindow st) = Fin (of_int w) \<and> 3 \<le> w"
    and o: "odd w"
  then have *: "label_block env st \<noteq> Inl LabelWindowInvalid \<and> label_block env st \<noteq> Inl LabelWindowEven"
    by (intro label_block_window(2) [of st env w]) simp_all
  from * show "label_block env st \<noteq> Inl LabelWindowInvalid" by simp
  from * show "label_block env st \<noteq> Inl LabelWindowEven" by simp
next
  assume "useLabelOverrides st \<and> label_block env st = Inr kvs"
  then show "\<exists>v. Number env (labelWindow st) = Fin (of_int v) \<and> 3 \<le> v \<and> odd v"
    using label_block_accepts by blast
qed

theorem label_window_validation_witness:
  "useLabelOverrides (initial_form\<lparr>useLabelOverrides := True\<rparr>)
   \<and> Number example_env (labelWindow (initial_form\<lparr>useLabelOverrides := True\<rparr>)) = Fin (of_int 29)
   \<and> (3::int) \<le> 29 \<and> odd (29::int)
   \<and> label_block example_env (initial_form\<lparr>useLabelOverrides := True\<rparr>) \<noteq> Inl LabelWindowInvalid
   \<and> label_block example_env (initial_form\<lparr>useLabelOverrides := True\<rparr>) \<noteq> Inl LabelWindowEven
   \<and> useLabelOverrides (initial_form\<lparr>useLabelOverrides := True, labelWindow := ''30''\<rparr>)
   \<and> Number example_env (labelWindow (initial_form\<lparr>useLabelOverrides := True, labelWindow := ''30''\<rparr>))
       = Fin (of_int 30)
   \<and> even (30::int)
   \<and> label_block example_env (initial_form\<lparr>useLabelOverrides := True, labelWindow := ''30''\<rparr>)
       = Inl LabelWindowEven"
proof -
  define st where "st = initial_form\<lparr>useLabelOverrides := True\<rparr>"
  define st' where "st' = initial_form\<lparr>useLabelOverrides := True, labelWindow := ''30''\<rparr>"
  have 1: "useLabelOverrides st" by (simp add: st_def)
  have 2: "Number example_env (labelWindow st) = Fin (of_int 29)"
    by (simp add: st_def onRun_eval)
  have 3: "useLabelOverrides st'" by (simp add: st'_def)
  have 4: "Number example_env (labelWindow st') = Fin (of_int 30)"
    by (simp add: st'_def onRun_eval)
  from label_window_validation [of st example_env 29] 1 2
  have 5: "label_block example_env st \<noteq> Inl LabelWindowInvalid"
    "label_block example_env st \<noteq> Inl LabelWindowEven" by simp_all
  from label_window_validation [of st' example_env 30] 3 4
  have 6: "label_block example_env st' = Inl LabelWindowEven" by simp
  have "useLabelOverrides st
   \<and> Number example_env (labelWindow st) = Fin (of_int 29)
   \<and> (3::int) \<le> 29 \<and> odd (29::int)
   \<and> label_block example_env st \<noteq> Inl LabelWindowInvalid
   \<and> label_block example_env st \<noteq> Inl LabelWindowEven
   \<and> useLabelOverrides st'
   \<and> Number example_env (labelWindow st') = Fin (of_int 30)
   \<and> even (30::int)
   \<and> label_block example_env st' = Inl LabelWindowEven"
    using 1 2 3 4 5 6 by simp
  then show ?thesis unfolding st_def st'_def .
qed



end
